theory Spec2Isabelle
  imports Main
begin

section \<open>Regular expressions used by the program\<close>

text \<open>
  The program compiles two patterns with Go's \<^verbatim>\<open>regexp\<close> package. Both are
  sequences of character classes, each taken once, a fixed number of times or one or
  more times (greedy), some of them captured. A pattern is a list of such items.
  Matching follows the leftmost-first rule of the package: the match found is the one
  a backtracking matcher reaches first, trying start positions from the left and, for
  a greedy repetition, the longest run first.
  Strings are byte lists; every class below decides on ASCII bytes only, so matching
  byte by byte agrees with matching rune by rune.
\<close>

datatype item =
    One "char \<Rightarrow> bool"     \<comment> \<open>one character of the class\<close>
  | Many "char \<Rightarrow> bool"    \<comment> \<open>\<^verbatim>\<open>c+\<close>, not captured\<close>
  | Cap "char \<Rightarrow> bool"     \<comment> \<open>\<^verbatim>\<open>(c+)\<close>, a capture group\<close>
  | EndText                                \<comment> \<open>\<^verbatim>\<open>$\<close> without the multi-line flag\<close>

definition cls_d :: "char \<Rightarrow> bool" where  \<comment> \<open>\<^verbatim>\<open>\d\<close>\<close>
  "cls_d c = (c \<in> set ''0123456789'')"

definition cls_w :: "char \<Rightarrow> bool" where  \<comment> \<open>\<^verbatim>\<open>\w\<close>\<close>
  "cls_w c = (c \<in> set ''0123456789ABCDEFGHIJKLMNOPQRSTUVWXYZ_abcdefghijklmnopqrstuvwxyz'')"

definition cls_s :: "char \<Rightarrow> bool" where  \<comment> \<open>\<^verbatim>\<open>\s\<close>: tab, newline, form feed, carriage return, space\<close>
  "cls_s c = (c \<in> set [CHR 0x09, CHR 0x0A, CHR 0x0C, CHR 0x0D, CHR '' ''])"

definition cls_S :: "char \<Rightarrow> bool" where  \<comment> \<open>\<^verbatim>\<open>[^\s]\<close>\<close>
  "cls_S c = (\<not> cls_s c)"

definition cls_time :: "char \<Rightarrow> bool" where  \<comment> \<open>\<^verbatim>\<open>[0-9.]\<close>\<close>
  "cls_time c = (c \<in> set ''0123456789.'')"

definition cls_hex :: "char \<Rightarrow> bool" where  \<comment> \<open>\<^verbatim>\<open>[\da-f]\<close>\<close>
  "cls_hex c = (c \<in> set ''0123456789abcdef'')"

definition lit :: "char \<Rightarrow> char \<Rightarrow> bool" where  \<comment> \<open>a literal character\<close>
  "lit x c = (c = x)"

text \<open>The non-empty runs of class characters at the front of a string, longest first,
  each with the rest of the string after it.\<close>

fun spans :: "(char \<Rightarrow> bool) \<Rightarrow> string \<Rightarrow> (string \<times> string) list" where
  "spans c [] = []"
| "spans c (x # t) =
     (if c x then map (\<lambda>(a, r). (x # a, r)) (spans c t) @ [([x], t)] else [])"

fun first_some :: "('a \<Rightarrow> 'b option) \<Rightarrow> 'a list \<Rightarrow> 'b option" where
  "first_some f [] = None"
| "first_some f (x # xs) = (case f x of Some r \<Rightarrow> Some r | None \<Rightarrow> first_some f xs)"

text \<open>Match a pattern at the front of a string: the number of characters consumed and
  the captured groups, in order.\<close>

fun matchp :: "item list \<Rightarrow> string \<Rightarrow> (nat \<times> string list) option" where
  "matchp [] s = Some (0, [])"
| "matchp (EndText # p) s = (if s = [] then matchp p s else None)"
| "matchp (One c # p) s =
     (case s of
        [] \<Rightarrow> None
      | x # t \<Rightarrow> if c x then map_option (\<lambda>(k, g). (Suc k, g)) (matchp p t) else None)"
| "matchp (Many c # p) s =
     first_some (\<lambda>(a, r). map_option (\<lambda>(k, g). (length a + k, g)) (matchp p r)) (spans c s)"
| "matchp (Cap c # p) s =
     first_some (\<lambda>(a, r). map_option (\<lambda>(k, g). (length a + k, a # g)) (matchp p r)) (spans c s)"

text \<open>\<^verbatim>\<open>FindStringSubmatch\<close> of an unanchored pattern: the whole match followed by
  the groups, or the empty slice when the pattern matches nowhere.\<close>

fun FindStringSubmatch :: "item list \<Rightarrow> string \<Rightarrow> string list" where
  "FindStringSubmatch p s =
     (case matchp p s of
        Some (k, g) \<Rightarrow> take k s # g
      | None \<Rightarrow> (case s of [] \<Rightarrow> [] | _ # t \<Rightarrow> FindStringSubmatch p t))"

declare FindStringSubmatch.simps [simp del]


text \<open>\<^verbatim>\<open>^[\da-f]{8}-[\da-f]{4}-[\da-f]{4}-[\da-f]{4}-[\da-f]{12}$\<close>; the leading
  \<^verbatim>\<open>^\<close> allows a match at the start of the text only.\<close>

definition reUUID :: "item list" where
  "reUUID = replicate 8 (One cls_hex) @ [One (lit CHR ''-'')] @
            replicate 4 (One cls_hex) @ [One (lit CHR ''-'')] @
            replicate 4 (One cls_hex) @ [One (lit CHR ''-'')] @
            replicate 4 (One cls_hex) @ [One (lit CHR ''-'')] @
            replicate 12 (One cls_hex) @ [EndText]"

definition reUUID_MatchString :: "string \<Rightarrow> bool" where
  "reUUID_MatchString s = (matchp reUUID s \<noteq> None)"

text \<open>The pattern of \<^verbatim>\<open>parseLogEntry\<close>:
  \<^verbatim>\<open>([0-9.]+)\s+\d+\s+([^\s]+)\s+([^\s]+)\s+\d+\s+(\w+)\s+([^\s]+)\s+-\s[^\s]+\s([^\s]+)\<close>\<close>

definition re_log :: "item list" where
  "re_log = [Cap cls_time, Many cls_s, Many cls_d, Many cls_s, Cap cls_S, Many cls_s,
             Cap cls_S, Many cls_s, Many cls_d, Many cls_s, Cap cls_w, Many cls_s,
             Cap cls_S, Many cls_s, One (lit CHR ''-''), One cls_s, Many cls_S, One cls_s,
             Cap cls_S]"

section \<open>Library calls\<close>

text \<open>
  The program calls \<^verbatim>\<open>net.ParseIP\<close>, \<^verbatim>\<open>net.SplitHostPort\<close>,
  \<^verbatim>\<open>publicsuffix.EffectiveTLDPlusOne\<close>, \<^verbatim>\<open>url.Parse\<close>,
  \<^verbatim>\<open>strconv.ParseFloat\<close> and the \<^verbatim>\<open>time\<close> package. They are not part of
  the program, so the functions below take them as a parameter. An error return is
  \<open>None\<close>; \<open>ParseIP\<close> tells whether the result is non-nil. The type \<open>'t\<close> stands for
  \<^verbatim>\<open>float64\<close>; \<open>UnixFormat ts\<close> stands for
  \<^verbatim>\<open>time.Unix(int64(ts), int64(1e9*(ts-math.Trunc(ts)))).UTC().Format(saneTime)\<close>.
\<close>

record url =
  Scheme :: string
  url_Host :: string
  url_Path :: string

record 't lib =
  ParseIP :: "string \<Rightarrow> bool"
  SplitHostPort :: "string \<Rightarrow> (string \<times> string) option"
  EffectiveTLDPlusOne :: "string \<Rightarrow> string option"
  url_Parse :: "string \<Rightarrow> url option"
  ParseFloat :: "string \<Rightarrow> 't option"
  UnixFormat :: "'t \<Rightarrow> string"

section \<open>Domain canonicalisation\<close>

definition host2domain :: "'t lib \<Rightarrow> string \<Rightarrow> string" where
  "host2domain L h =
     (let plus1 = (case EffectiveTLDPlusOne L h of None \<Rightarrow> h | Some r \<Rightarrow> ''.'' @ r) in
      if ParseIP L h then h
      else case SplitHostPort L h of
             Some (hst, _) \<Rightarrow> if ParseIP L hst then hst else plus1
           | None \<Rightarrow> plus1)"

text \<open>What keeps a result \<open>.r\<close> fixed under another application: \<open>.r\<close> is not an IP
  literal, its host part (when it splits) is not one either, and its registrable
  domain is \<open>r\<close> again or an error.\<close>

definition separator_stable :: "'t lib \<Rightarrow> string \<Rightarrow> bool" where
  "separator_stable L r =
     (\<not> ParseIP L (''.'' @ r) \<and>
      (case SplitHostPort L (''.'' @ r) of Some (hst, p) \<Rightarrow> \<not> ParseIP L hst | None \<Rightarrow> True) \<and>
      (case EffectiveTLDPlusOne L (''.'' @ r) of Some r' \<Rightarrow> r' = r | None \<Rightarrow> True))"

section \<open>Log lines\<close>

record logEntry =
  Time :: string
  Client :: string
  Method :: string
  Domain :: string
  Host :: string
  Path :: string
  URL :: string

datatype parse_error =
    errSkip                        \<comment> \<open>\<^verbatim>\<open>errSkip\<close>\<close>
  | BadLogLine string              \<comment> \<open>\<^verbatim>\<open>bad log line: %q\<close>, with the line\<close>
  | BadEpochTime string            \<comment> \<open>\<^verbatim>\<open>failed to parse epoch time %q\<close>, with group 1\<close>

definition parseLogEntry :: "'t lib \<Rightarrow> string \<Rightarrow> parse_error + logEntry" where
  "parseLogEntry L l =
     (if length l = 0 then Inl errSkip
      else let s = FindStringSubmatch re_log l in
        if length s = 0 then Inl (BadLogLine l)
        else
          let u = s ! 5;
              (host, p) =
                (case url_Parse L u of
                   Some ur \<Rightarrow>
                     if CHR ''/'' \<in> set u \<and> Scheme ur \<noteq> '''' then (url_Host ur, url_Path ur)
                     else (case SplitHostPort L u of Some (h, _) \<Rightarrow> (h, '''') | None \<Rightarrow> (u, ''''))
                 | None \<Rightarrow>
                     (case SplitHostPort L u of Some (h, _) \<Rightarrow> (h, '''') | None \<Rightarrow> (u, '''')))
          in case ParseFloat L (s ! 1) of
               None \<Rightarrow> Inl (BadEpochTime (s ! 1))
             | Some ts \<Rightarrow>
                 Inr \<lparr>Time = UnixFormat L ts, Client = s ! 2, Method = s ! 4,
                      Domain = host2domain L host, Host = host, Path = p, URL = u\<rparr>)"

section \<open>The tail of the log\<close>

text \<open>
  \<^verbatim>\<open>reverse\<close> allocates \<open>l\<close> empty strings and swaps pairs of positions while
  \<open>i < j\<close>. The indices are Go \<^verbatim>\<open>int\<close>s: for the empty slice \<open>j\<close> starts at \<open>-1\<close>.
  Inside the loop \<open>0 \<le> i < j < l\<close>, so neither read nor write leaves the slices.
\<close>

function reverse_loop :: "int \<Rightarrow> int \<Rightarrow> string list \<Rightarrow> string list \<Rightarrow> string list" where
  "reverse_loop i j s o' =
     (if i < j
      then reverse_loop (i + 1) (j - 1) s (o'[nat i := s ! nat j, nat j := s ! nat i])
      else o')"
  by pat_completeness auto
termination
  by (relation "measure (\<lambda>(i, j, s, o'). nat (j - i))") auto

declare reverse_loop.simps [simp del]

definition reverse :: "string list \<Rightarrow> string list" where
  "reverse s = (let l = length s in reverse_loop 0 (int l - 1) s (replicate l ''''))"

text \<open>\<^verbatim>\<open>strings.Split\<close> with a separator of one character: the pieces between
  separators; one piece more than there are separators, so the empty text gives one
  empty piece.\<close>

fun Split :: "char \<Rightarrow> string \<Rightarrow> string list" where
  "Split sep [] = [[]]"
| "Split sep (c # cs) =
     (if c = sep then [] # Split sep cs
      else (case Split sep cs of p # ps \<Rightarrow> (c # p) # ps | [] \<Rightarrow> [[c]]))"

text \<open>The loop of \<^verbatim>\<open>tailLogHandler\<close> over the lines: an entry is appended, a skip
  is passed over, any other error is written to the log and passed over. The result
  is the entries and the errors written to the log.\<close>

fun collect :: "'t lib \<Rightarrow> string list \<Rightarrow> logEntry list \<times> parse_error list" where
  "collect L [] = ([], [])"
| "collect L (l # ls) =
     (let (es, lg) = collect L ls in
      case parseLogEntry L l of
        Inr entry \<Rightarrow> (entry # es, lg)
      | Inl errSkip \<Rightarrow> (es, lg)
      | Inl err \<Rightarrow> (es, err # lg))"

definition tailLog :: "'t lib \<Rightarrow> string \<Rightarrow> logEntry list \<times> parse_error list" where
  "tailLog L b =
     (let lines = reverse (Split CHR 0x0A b);
          lines = (if length lines > 30 then take 30 lines else lines)
      in collect L lines)"

section \<open>The policy store\<close>

text \<open>
  The tables the handlers touch, as lists of rows in insertion order. A comment column
  is nullable: the readers scan it into a \<^verbatim>\<open>sql.NullString\<close>.
\<close>

record db =
  sources :: "(string \<times> string \<times> string option) list"       \<comment> \<open>source_id, source, comment\<close>
  members :: "(string \<times> string \<times> string option) list"       \<comment> \<open>group_id, source_id, comment\<close>
  acls :: "(string \<times> string option) list"                    \<comment> \<open>acl_id, comment\<close>
  rules :: "(string \<times> string \<times> string \<times> string \<times> string option) list"
                                                            \<comment> \<open>rule_id, type, value, action, comment\<close>
  aclrules :: "(string \<times> string) list"                       \<comment> \<open>acl_id, rule_id\<close>
  groupaccess :: "(string \<times> string \<times> string option) list"   \<comment> \<open>group_id, acl_id, comment\<close>

text \<open>The statements the handlers send to the database, with their parameters.\<close>

datatype stmt =
    Begin
  | Commit
  | DeleteMembers string                 \<comment> \<open>\<^verbatim>\<open>DELETE from members WHERE group_id=?\<close>\<close>
  | InsertMember string string string    \<comment> \<open>\<^verbatim>\<open>INSERT INTO members(group_id, source_id, comment)\<close>\<close>
  | SelectMembers string                 \<comment> \<open>\<^verbatim>\<open>SELECT source_id, comment FROM members WHERE group_id=?\<close>\<close>
  | DeleteGroupaccess string             \<comment> \<open>\<^verbatim>\<open>DELETE FROM groupaccess WHERE group_id=?\<close>\<close>
  | InsertGroupaccess string string string
                                         \<comment> \<open>\<^verbatim>\<open>INSERT INTO groupaccess(group_id, acl_id, comment)\<close>\<close>
  | DeleteSource string                  \<comment> \<open>\<^verbatim>\<open>DELETE FROM sources WHERE source_id=?\<close>\<close>
  | CountMembers string                  \<comment> \<open>\<^verbatim>\<open>SELECT COUNT(*) FROM members WHERE source_id=?\<close>\<close>
  | DeleteAcl string                     \<comment> \<open>\<^verbatim>\<open>DELETE FROM acls WHERE acl_id=?\<close>\<close>
  | CountAclrules string                 \<comment> \<open>\<^verbatim>\<open>SELECT COUNT(*) FROM aclrules WHERE acl_id=?\<close>\<close>
  | InsertSource string string string    \<comment> \<open>\<^verbatim>\<open>INSERT INTO sources(source_id, source, comment)\<close>\<close>
  | UpdateAclrules string "string list"  \<comment> \<open>\<^verbatim>\<open>UPDATE aclrules SET acl_id=? WHERE rule_id IN (...)\<close>\<close>
  | DeleteAclrulesIn "string list"       \<comment> \<open>\<^verbatim>\<open>DELETE FROM aclrules WHERE rule_id IN (...)\<close>\<close>
  | DeleteRulesIn "string list"          \<comment> \<open>\<^verbatim>\<open>DELETE FROM rules WHERE rule_id IN (...)\<close>\<close>
  | UpdateRule string string string string string
      \<comment> \<open>\<^verbatim>\<open>UPDATE rules SET type=?, value=?, action=?, comment=? WHERE rule_id=?\<close>\<close>

text \<open>The list \<^verbatim>\<open>IN ('%s')\<close> is built with \<^verbatim>\<open>strings.Join(rules, "','")\<close>: for no
  rule at all it holds the empty string. The identifiers joined have passed the UUID
  check, so none of them holds a quote.\<close>

definition in_list :: "string list \<Rightarrow> string list" where
  "in_list ids = (if ids = [] then [''''] else ids)"

text \<open>The two \<^verbatim>\<open>SELECT COUNT(*)\<close> queries. The handlers scan the count into a
  \<^verbatim>\<open>uint64\<close>; a count of rows is a natural number far below \<open>2 ^ 64\<close>, so it is a
  \<open>nat\<close> here. Calls of \<^verbatim>\<open>log.Printf\<close> change nothing the handlers return and are
  left out.\<close>

definition count_members :: "db \<Rightarrow> string \<Rightarrow> nat" where
  "count_members d sid = length (filter (\<lambda>(g, s, c). s = sid) (members d))"

definition count_aclrules :: "db \<Rightarrow> string \<Rightarrow> nat" where
  "count_aclrules d aid = length (filter (\<lambda>(a, r). a = aid) (aclrules d))"

text \<open>What an accepted statement does to the tables.\<close>

fun apply_stmt :: "stmt \<Rightarrow> db \<Rightarrow> db" where
  "apply_stmt (DeleteMembers gid) d = d\<lparr>members := filter (\<lambda>(g, s, c). g \<noteq> gid) (members d)\<rparr>"
| "apply_stmt (InsertMember gid sid c) d = d\<lparr>members := members d @ [(gid, sid, Some c)]\<rparr>"
| "apply_stmt (DeleteGroupaccess gid) d =
     d\<lparr>groupaccess := filter (\<lambda>(g, a, c). g \<noteq> gid) (groupaccess d)\<rparr>"
| "apply_stmt (InsertGroupaccess gid aid c) d =
     d\<lparr>groupaccess := groupaccess d @ [(gid, aid, Some c)]\<rparr>"
| "apply_stmt (DeleteSource sid) d = d\<lparr>sources := filter (\<lambda>(i, s, c). i \<noteq> sid) (sources d)\<rparr>"
| "apply_stmt (DeleteAcl aid) d = d\<lparr>acls := filter (\<lambda>(i, c). i \<noteq> aid) (acls d)\<rparr>"
| "apply_stmt (InsertSource sid src c) d = d\<lparr>sources := sources d @ [(sid, src, Some c)]\<rparr>"
| "apply_stmt (UpdateAclrules dst ids) d =
     d\<lparr>aclrules := map (\<lambda>(a, r). if r \<in> set (in_list ids) then (dst, r) else (a, r)) (aclrules d)\<rparr>"
| "apply_stmt (DeleteAclrulesIn ids) d =
     d\<lparr>aclrules := filter (\<lambda>(a, r). r \<notin> set (in_list ids)) (aclrules d)\<rparr>"
| "apply_stmt (DeleteRulesIn ids) d =
     d\<lparr>rules := filter (\<lambda>(i, t, v, a, c). i \<notin> set (in_list ids)) (rules d)\<rparr>"
| "apply_stmt (UpdateRule typ val action comment rid) d =
     d\<lparr>rules := map (\<lambda>(i, t, v, a, c).
                      if i = rid then (i, typ, val, action, Some comment) else (i, t, v, a, c))
                    (rules d)\<rparr>"
| "apply_stmt Begin d = d"
| "apply_stmt Commit d = d"
| "apply_stmt (SelectMembers gid) d = d"
| "apply_stmt (CountMembers sid) d = d"
| "apply_stmt (CountAclrules aid) d = d"

text \<open>
  Whether the database accepts a statement in a given state (constraints of the schema,
  storage faults) is not decided by the program: it is the parameter \<open>acc\<close> of every
  function below. The state of a run is the tables and the statements sent so far.
\<close>

type_synonym accepts = "db \<Rightarrow> stmt \<Rightarrow> bool"

record world =
  store :: db
  issued :: "stmt list"

datatype panic =
    NotUuid string                 \<comment> \<open>\<^verbatim>\<open>assertUUID\<close>: \<^verbatim>\<open>%q is not uuid\<close>\<close>
  | IndexOutOfRange nat nat        \<comment> \<open>run-time panic: index, length\<close>

datatype error =
    NotValidUUID string            \<comment> \<open>\<^verbatim>\<open>%q is not valid UUID\<close>\<close>
  | NotValidRuleID string          \<comment> \<open>\<^verbatim>\<open>%q is not valid rule ID\<close>\<close>
  | NotValidAclID string           \<comment> \<open>\<^verbatim>\<open>%q is not valid acl ID\<close>\<close>
  | LengthUnequal nat nat          \<comment> \<open>\<^verbatim>\<open>acl list and comment list length unequal\<close>\<close>
  | errHTTP string nat             \<comment> \<open>\<^verbatim>\<open>errHTTP\<close>: external message, status code\<close>
  | DBError stmt                   \<comment> \<open>the error the database returned for a statement\<close>
  | Panic panic                    \<comment> \<open>the handler panicked\<close>

text \<open>\<^verbatim>\<open>%d\<close> of a count.\<close>

function dec :: "nat \<Rightarrow> string" where
  "dec n = (if n < 10 then [''0123456789'' ! n] else dec (n div 10) @ [''0123456789'' ! (n mod 10)])"
  by pat_completeness auto
termination
  by (relation "measure id") auto

declare dec.simps [simp del]

text \<open>\<^verbatim>\<open>tx.Exec\<close> and \<^verbatim>\<open>tx.QueryRow\<close>: the statement is sent; when accepted it takes
  effect, otherwise the tables stay as they are and the error comes back.\<close>

definition Exec :: "accepts \<Rightarrow> stmt \<Rightarrow> world \<Rightarrow> error option \<times> world" where
  "Exec acc q w =
     (let w' = w\<lparr>issued := issued w @ [q]\<rparr> in
      if acc (store w) q then (None, w'\<lparr>store := apply_stmt q (store w)\<rparr>)
      else (Some (DBError q), w'))"

text \<open>\<^verbatim>\<open>txWrap\<close>: begin, run the body, commit. The deferred \<^verbatim>\<open>tx.Rollback()\<close> runs
  on every way out, also when the body panics; after a successful commit it does
  nothing.\<close>

definition txWrap :: "accepts \<Rightarrow> (world \<Rightarrow> error option \<times> world) \<Rightarrow> world \<Rightarrow> error option \<times> world" where
  "txWrap acc f w =
     (case Exec acc Begin w of
        (Some err, w0) \<Rightarrow> (Some err, w0)
      | (None, w0) \<Rightarrow>
          (case f w0 of
             (Some err, w1) \<Rightarrow> (Some err, w1\<lparr>store := store w\<rparr>)
           | (None, w1) \<Rightarrow>
               (case Exec acc Commit w1 of
                  (Some err, w2) \<Rightarrow> (Some err, w2\<lparr>store := store w\<rparr>)
                | (None, w2) \<Rightarrow> (None, w2))))"

fun formUUIDsStringSlice :: "string list \<Rightarrow> error + string list" where
  "formUUIDsStringSlice [] = Inr []"
| "formUUIDsStringSlice (u # vs) =
     (if \<not> reUUID_MatchString u then Inl (NotValidUUID u)
      else case formUUIDsStringSlice vs of Inl e \<Rightarrow> Inl e | Inr s \<Rightarrow> Inr (u # s))"

text \<open>\<^verbatim>\<open>assertUUID\<close> panics on a string that is not a UUID.\<close>

definition assertUUID :: "string \<Rightarrow> panic + string" where
  "assertUUID s = (if \<not> reUUID_MatchString s then Inl (NotUuid s) else Inr s)"

subsection \<open>Handlers\<close>

text \<open>
  A handler gets the path variable and the form values of the request and returns the
  error of the Go function (\<open>None\<close> is \<^verbatim>\<open>nil\<close>, the reply \<^verbatim>\<open>"OK"\<close>) and the new
  state. A panic leaves the handler at once; it is the error \<open>Panic\<close>.
\<close>

text \<open>The rule identifiers of \<^verbatim>\<open>aclMoveHandler\<close> are checked one by one.\<close>

fun check_rules :: "string list \<Rightarrow> error + string list" where
  "check_rules [] = Inr []"
| "check_rules (ruleID # vs) =
     (if \<not> reUUID_MatchString ruleID then Inl (NotValidRuleID ruleID)
      else case check_rules vs of Inl e \<Rightarrow> Inl e | Inr s \<Rightarrow> Inr (ruleID # s))"

definition aclMoveHandler :: "accepts \<Rightarrow> string \<Rightarrow> string list \<Rightarrow> world \<Rightarrow> error option \<times> world" where
  "aclMoveHandler acc dst rules_form w =
     (case check_rules rules_form of
        Inl e \<Rightarrow> (Some e, w)
      | Inr rs \<Rightarrow> txWrap acc (\<lambda>tx. Exec acc (UpdateAclrules dst rs) tx) w)"

fun check_acls :: "string list \<Rightarrow> error + string list" where
  "check_acls [] = Inr []"
| "check_acls (aclID # vs) =
     (if \<not> reUUID_MatchString aclID then Inl (NotValidAclID aclID)
      else case check_acls vs of Inl e \<Rightarrow> Inl e | Inr s \<Rightarrow> Inr (aclID # s))"

text \<open>The loop \<^verbatim>\<open>for n := range acls\<close> of \<^verbatim>\<open>accessUpdateHandler\<close> reads
  \<^verbatim>\<open>acls[n]\<close> and \<^verbatim>\<open>comments[n]\<close>; \<open>n\<close> counts the rows already inserted.\<close>

fun insert_access :: "accepts \<Rightarrow> string \<Rightarrow> nat \<Rightarrow> string list \<Rightarrow> string list \<Rightarrow> world \<Rightarrow> error option \<times> world" where
  "insert_access acc gid n [] cs w = (None, w)"
| "insert_access acc gid n (a # as) [] w = (Some (Panic (IndexOutOfRange n n)), w)"
| "insert_access acc gid n (a # as) (c # cs) w =
     (case Exec acc (InsertGroupaccess gid a c) w of
        (Some err, w') \<Rightarrow> (Some err, w')
      | (None, w') \<Rightarrow> insert_access acc gid (Suc n) as cs w')"

definition accessUpdateHandler ::
    "accepts \<Rightarrow> string \<Rightarrow> string list \<Rightarrow> string list \<Rightarrow> world \<Rightarrow> error option \<times> world" where
  "accessUpdateHandler acc groupID acls_form comments w =
     (case check_acls acls_form of
        Inl e \<Rightarrow> (Some e, w)
      | Inr as \<Rightarrow>
          if length comments \<noteq> length as then (Some (LengthUnequal (length as) (length comments)), w)
          else txWrap acc (\<lambda>tx.
                 case Exec acc (DeleteGroupaccess groupID) tx of
                   (Some err, tx') \<Rightarrow> (Some err, tx')
                 | (None, tx') \<Rightarrow> insert_access acc groupID 0 as comments tx') w)"


definition member_rows :: "db \<Rightarrow> string \<Rightarrow> (string \<times> string option) list" where
  "member_rows d gid = map snd (filter (\<lambda>(g, s, c). g = gid) (members d))"


definition sourceDeleteHandler :: "accepts \<Rightarrow> string \<Rightarrow> world \<Rightarrow> error option \<times> world" where
  "sourceDeleteHandler acc sourceID w =
     (case assertUUID sourceID of
        Inl p \<Rightarrow> (Some (Panic p), w)
      | Inr sid \<Rightarrow>
          txWrap acc (\<lambda>tx.
            case Exec acc (DeleteSource sid) tx of
              (Some err, tx1) \<Rightarrow>
                (case Exec acc (CountMembers sid) tx1 of
                   (Some e, tx2) \<Rightarrow> (Some err, tx2)
                 | (None, tx2) \<Rightarrow>
                     (Some (errHTTP (''source still used by '' @ dec (count_members (store tx1) sid)
                                       @ '' groups'') 400), tx2))
            | (None, tx1) \<Rightarrow> (None, tx1)) w)"

text \<open>\<^verbatim>\<open>aclDeleteHandler\<close> checks its identifier with \<^verbatim>\<open>assertSourceID\<close>, that is
  \<^verbatim>\<open>assertUUID\<close>.\<close>

definition aclDeleteHandler :: "accepts \<Rightarrow> string \<Rightarrow> world \<Rightarrow> error option \<times> world" where
  "aclDeleteHandler acc aclID w =
     (case assertUUID aclID of
        Inl p \<Rightarrow> (Some (Panic p), w)
      | Inr aid \<Rightarrow>
          txWrap acc (\<lambda>tx.
            case Exec acc (DeleteAcl aid) tx of
              (Some err, tx1) \<Rightarrow>
                (case Exec acc (CountAclrules aid) tx1 of
                   (Some e, tx2) \<Rightarrow> (Some err, tx2)
                 | (None, tx2) \<Rightarrow>
                     (Some (errHTTP (''acl still has '' @ dec (count_aclrules (store tx1) aid)
                                       @ '' rules'') 400), tx2))
            | (None, tx1) \<Rightarrow> (None, tx1)) w)"

text \<open>\<^verbatim>\<open>membersNewHandler\<close>; \<open>u\<close> is the string \<^verbatim>\<open>uuid.NewV4()\<close> returns.\<close>

definition membersNewHandler ::
    "accepts \<Rightarrow> string \<Rightarrow> string \<Rightarrow> string \<Rightarrow> string \<Rightarrow> string \<Rightarrow> world \<Rightarrow> error option \<times> world" where
  "membersNewHandler acc groupID src sourceComment comment u w =
     (case assertUUID groupID of
        Inl p \<Rightarrow> (Some (Panic p), w)
      | Inr gid \<Rightarrow>
         (case assertUUID u of
            Inl p \<Rightarrow> (Some (Panic p), w)
          | Inr sid \<Rightarrow>
              txWrap acc (\<lambda>tx.
                case Exec acc (InsertSource sid src sourceComment) tx of
                  (Some err, tx') \<Rightarrow> (Some err, tx')
                | (None, tx') \<Rightarrow> Exec acc (InsertMember gid sid comment) tx') w))"

text \<open>The loop \<^verbatim>\<open>for n := range sources\<close> of \<^verbatim>\<open>membersmembersHandler\<close> reads
  \<^verbatim>\<open>sources[n]\<close> and \<^verbatim>\<open>comments[n]\<close>; the second read panics when the comments have
  run out. \<open>n\<close> counts the rows already inserted, which is then the length of the
  comment list.\<close>

fun insert_members :: "accepts \<Rightarrow> string \<Rightarrow> nat \<Rightarrow> string list \<Rightarrow> string list \<Rightarrow> world \<Rightarrow> error option \<times> world" where
  "insert_members acc gid n [] cs w = (None, w)"
| "insert_members acc gid n (s # ss) [] w = (Some (Panic (IndexOutOfRange n n)), w)"
| "insert_members acc gid n (s # ss) (c # cs) w =
     (case Exec acc (InsertMember gid s c) w of
        (Some err, w') \<Rightarrow> (Some err, w')
      | (None, w') \<Rightarrow> insert_members acc gid (Suc n) ss cs w')"

definition membersmembersHandler ::
    "accepts \<Rightarrow> string \<Rightarrow> string list \<Rightarrow> string list \<Rightarrow> world \<Rightarrow> error option \<times> world" where
  "membersmembersHandler acc groupID sources_form comments w =
     (case assertUUID groupID of
        Inl p \<Rightarrow> (Some (Panic p), w)
      | Inr gid \<Rightarrow>
         (case formUUIDsStringSlice sources_form of
            Inl err \<Rightarrow> (Some err, w)
          | Inr srcs \<Rightarrow>
              txWrap acc (\<lambda>tx.
                case Exec acc (DeleteMembers gid) tx of
                  (Some err, tx') \<Rightarrow> (Some err, tx')
                | (None, tx') \<Rightarrow> insert_members acc gid 0 srcs comments tx') w))"

definition ruleDeleteHandler :: "accepts \<Rightarrow> string list \<Rightarrow> world \<Rightarrow> error option \<times> world" where
  "ruleDeleteHandler acc rules_form w =
     (case formUUIDsStringSlice rules_form of
        Inl err \<Rightarrow> (Some err, w)
      | Inr rs \<Rightarrow>
          txWrap acc (\<lambda>tx.
            case Exec acc (DeleteAclrulesIn rs) tx of
              (Some err, tx') \<Rightarrow> (Some err, tx')
            | (None, tx') \<Rightarrow> Exec acc (DeleteRulesIn rs) tx') w)"

definition ruleEditHandler ::
    "accepts \<Rightarrow> string \<Rightarrow> string \<Rightarrow> string \<Rightarrow> string \<Rightarrow> string \<Rightarrow> world \<Rightarrow> error option \<times> world" where
  "ruleEditHandler acc ruleID action typ val comment w =
     txWrap acc (\<lambda>tx. Exec acc (UpdateRule typ val action comment ruleID) tx) w"

text \<open>
  Modelled from the spec: the schema of the database is not part of the sources. By
  sections 3 and 6 of the specification foreign keys are enforced, an ACL cannot be
  deleted while a rule still references it, and a source cannot be deleted while a
  group membership still references it. A delete statement that finds no row to
  delete violates nothing. Every other statement is accepted: this store has no
  storage faults.
\<close>

definition fk_store :: accepts where
  "fk_store d q =
     (case q of
        DeleteAcl aid \<Rightarrow> aid \<notin> set (map fst (acls d)) \<or> count_aclrules d aid = 0
      | DeleteSource sid \<Rightarrow> sid \<notin> set (map fst (sources d)) \<or> count_members d sid = 0
      | _ \<Rightarrow> True)"

subsection \<open>A sample state\<close>

text \<open>Three well-formed identifiers and a state to run the handlers on: group
  \<open>uuid_g\<close> has the member \<open>uuid_a\<close>; ACL \<open>uuid_a\<close> holds two rules, ACL \<open>uuid_b\<close> none;
  source \<open>uuid_a\<close> is a member of one group, source \<open>uuid_b\<close> of none.\<close>

definition uuid_g :: string where "uuid_g = ''88bf513a-802f-450d-9fc4-b49eeabf1b8f''"
definition uuid_a :: string where "uuid_a = ''0a1b2c3d-0000-4000-8000-00000000000a''"
definition uuid_b :: string where "uuid_b = ''0a1b2c3d-0000-4000-8000-00000000000b''"
definition uuid_c :: string where "uuid_c = ''0a1b2c3d-0000-4000-8000-00000000000c''"

definition db0 :: db where
  "db0 = \<lparr>sources = [(uuid_a, ''10.0.0.5'', Some ''desk''), (uuid_b, ''10.0.0.6'', None)],
          members = [(uuid_g, uuid_a, Some ''old'')],
          acls = [(uuid_a, Some ''new''), (uuid_b, None)],
          rules = [(uuid_a, ''domain'', ''.example.co.uk'', ''allow'', None),
                   (uuid_b, ''exact'', ''http://example.org/'', ''ignore'', None)],
          aclrules = [(uuid_a, uuid_a), (uuid_a, uuid_b)],
          groupaccess = [(uuid_g, uuid_a, None)]\<rparr>"

definition world0 :: world where
  "world0 = \<lparr>store = db0, issued = []\<rparr>"

section \<open>An instance of the library calls\<close>

text \<open>
  To run the definitions on concrete lines, the library parameter is instantiated with
  executable renderings of the documented behaviour of the calls, each on the part of
  its domain named below. The general theorems do not depend on this instance.
\<close>

fun Join :: "char \<Rightarrow> string list \<Rightarrow> string" where
  "Join sep [] = []"
| "Join sep [x] = x"
| "Join sep (x # y # ys) = x @ sep # Join sep (y # ys)"

definition dtoi :: "string \<Rightarrow> nat" where
  "dtoi s = foldl (\<lambda>n c. 10 * n + (of_char c - 48)) 0 s"

text \<open>\<^verbatim>\<open>net.ParseIP\<close> on dotted-quad text: four decimal fields of one to three digits,
  at most 255, without a leading zero. IPv6 text is outside this instance.\<close>

definition ipv4_field :: "string \<Rightarrow> bool" where
  "ipv4_field f = (f \<noteq> [] \<and> length f \<le> 3 \<and> list_all cls_d f \<and> dtoi f \<le> 255 \<and>
                   (length f > 1 \<longrightarrow> hd f \<noteq> CHR ''0''))"

definition ParseIP4 :: "string \<Rightarrow> bool" where
  "ParseIP4 s = (let fs = Split CHR ''.'' s in length fs = 4 \<and> list_all ipv4_field fs)"

text \<open>\<^verbatim>\<open>net.SplitHostPort\<close>: the port is what follows the last colon; a host in
  brackets ends just before that colon; otherwise the host holds no colon; no other
  bracket anywhere.\<close>

definition SplitHostPort_net :: "string \<Rightarrow> (string \<times> string) option" where
  "SplitHostPort_net hostport =
     (if CHR '':'' \<notin> set hostport then None
      else
        let port = rev (takeWhile (\<lambda>c. c \<noteq> CHR '':'') (rev hostport));
            pre = take (length hostport - length port - 1) hostport
        in if hd hostport = CHR ''[''
           then (let host = takeWhile (\<lambda>c. c \<noteq> CHR '']'') (tl hostport) in
                 if pre = CHR ''['' # host @ '']'' \<and> CHR ''['' \<notin> set host \<and>
                    CHR ''['' \<notin> set port \<and> CHR '']'' \<notin> set port
                 then Some (host, port) else None)
           else if CHR '':'' \<in> set pre \<or> CHR ''['' \<in> set hostport \<or> CHR '']'' \<in> set hostport
                then None
                else Some (pre, port))"

text \<open>\<^verbatim>\<open>publicsuffix.EffectiveTLDPlusOne\<close> over an excerpt of the public suffix list:
  the suffix of a domain is its longest listed suffix, or its last label when none is
  listed; the result is the suffix and one more label. A domain with an empty label
  at either end or inside, or with no label before its suffix, is an error.\<close>

definition suffix_list :: "string list list" where
  "suffix_list = [[''com''], [''org''], [''net''], [''uk''], [''co'', ''uk''], [''org'', ''uk'']]"

definition suffix_labels :: "string list \<Rightarrow> nat" where
  "suffix_labels ls =
     foldl max 1 (map length (filter (\<lambda>r. length r \<le> length ls \<and> drop (length ls - length r) ls = r)
                                suffix_list))"

definition EffectiveTLDPlusOne_psl :: "string \<Rightarrow> string option" where
  "EffectiveTLDPlusOne_psl domain =
     (let ls = Split CHR ''.'' domain; n = suffix_labels ls in
      if [] \<in> set ls then None
      else if length ls \<le> n then None
      else Some (Join CHR ''.'' (drop (length ls - n - 1) ls)))"

text \<open>\<^verbatim>\<open>url.Parse\<close> on text of the form \<^verbatim>\<open>scheme://host/path\<close> with a scheme of
  letters, no user information, port, query, fragment or escape; other text is an
  error in this instance. (\<^verbatim>\<open>parseLogEntry\<close> treats an error and an empty scheme
  alike.)\<close>

definition cls_alpha :: "char \<Rightarrow> bool" where
  "cls_alpha c = (c \<in> set ''ABCDEFGHIJKLMNOPQRSTUVWXYZabcdefghijklmnopqrstuvwxyz'')"

definition url_Parse_simple :: "string \<Rightarrow> url option" where
  "url_Parse_simple u =
     (let sch = takeWhile cls_alpha u; rest = drop (length sch) u in
      if sch \<noteq> [] \<and> take 3 rest = ''://'' \<and>
         list_all (\<lambda>c. c \<notin> set ''@:?#%[] '') (drop 3 rest)
      then (let auth = takeWhile (\<lambda>c. c \<noteq> CHR ''/'') (drop 3 rest) in
            Some \<lparr>Scheme = sch, url_Host = auth, url_Path = drop (length auth) (drop 3 rest)\<rparr>)
      else None)"

text \<open>\<^verbatim>\<open>strconv.ParseFloat\<close> on the tokens group 1 of the log pattern can hold, digits
  and dots: accepted when there is a digit and at most one dot. The value is kept as
  its decimal text, and formatting it as a time is outside this instance.\<close>

definition ParseFloat_dec :: "string \<Rightarrow> string option" where
  "ParseFloat_dec s =
     (if list_all cls_time s \<and> list_ex cls_d s \<and> length (filter (\<lambda>c. c = CHR ''.'') s) \<le> 1
      then Some s else None)"

definition golib :: "string lib" where
  "golib = \<lparr>ParseIP = ParseIP4, SplitHostPort = SplitHostPort_net,
            EffectiveTLDPlusOne = EffectiveTLDPlusOne_psl, url_Parse = url_Parse_simple,
            ParseFloat = ParseFloat_dec, UnixFormat = (\<lambda>t. t)\<rparr>"

section \<open>Properties of the patterns\<close>









section \<open>Domain canonicalisation: properties\<close>

text \<open>
  C6. An input that parses as an IP literal is returned unchanged. An input that splits
  into host and port with a host that parses as an IP literal gives that host: the port
  is dropped, and neither the registrable-domain reduction nor the separator is
  applied. Canonicalisation has no failing branch: for every input and whatever the
  library calls answer, it returns a string.
\<close>

theorem host2domain_ip:
  "(ParseIP L h \<longrightarrow> host2domain L h = h) \<and>
   (\<not> ParseIP L h \<and> SplitHostPort L h = Some (ip, port) \<and> ParseIP L ip \<longrightarrow> host2domain L h = ip) \<and>
   (\<exists>d. host2domain L h = d)"
  by (simp add: host2domain_def)

theorem host2domain_ip_witness:
  "ParseIP golib ''93.184.216.34'' \<and> host2domain golib ''93.184.216.34'' = ''93.184.216.34'' \<and>
   \<not> ParseIP golib ''93.184.216.34:443'' \<and>
   SplitHostPort golib ''93.184.216.34:443'' = Some (''93.184.216.34'', ''443'') \<and>
   host2domain golib ''93.184.216.34:443'' = ''93.184.216.34''"
proof -
  have a: "ParseIP golib ''93.184.216.34''" by code_simp
  have b: "\<not> ParseIP golib ''93.184.216.34:443''" by code_simp
  have c: "SplitHostPort golib ''93.184.216.34:443'' = Some (''93.184.216.34'', ''443'')"
    by code_simp
  from host2domain_ip [of golib "''93.184.216.34''"] a
  have d: "host2domain golib ''93.184.216.34'' = ''93.184.216.34''" by blast
  from host2domain_ip [of golib "''93.184.216.34:443''" "''93.184.216.34''" "''443''"] a b c
  have e: "host2domain golib ''93.184.216.34:443'' = ''93.184.216.34''" by blast
  from a b c d e show ?thesis by blast
qed

text \<open>
  C7. For a host that is not an IP literal, with or without a port, and for which the
  public suffix list gives a registrable domain \<open>r\<close>, the result is \<open>r\<close> with one
  leading dot. Canonicalising the result again gives the result: an IP literal and a
  host without registrable domain are returned as they are, and \<open>.r\<close> stays \<open>.r\<close>
  because of three facts about the library calls on \<open>.r\<close>: it is not an IP literal,
  its host part is not one either, and its registrable domain is \<open>r\<close> again or an error.
\<close>

theorem host2domain_plus1_idempotent:
  assumes "\<And>r. EffectiveTLDPlusOne L h = Some r \<Longrightarrow> separator_stable L r"
  shows "(\<not> ParseIP L h \<and> (\<forall>hst p. SplitHostPort L h = Some (hst, p) \<longrightarrow> \<not> ParseIP L hst) \<and>
          EffectiveTLDPlusOne L h = Some r \<longrightarrow> host2domain L h = ''.'' @ r) \<and>
         host2domain L (host2domain L h) = host2domain L h"
proof
  show "\<not> ParseIP L h \<and> (\<forall>hst p. SplitHostPort L h = Some (hst, p) \<longrightarrow> \<not> ParseIP L hst) \<and>
          EffectiveTLDPlusOne L h = Some r \<longrightarrow> host2domain L h = ''.'' @ r"
    by (auto simp: host2domain_def Let_def split: option.splits prod.splits)
  have plus1: "host2domain L (case EffectiveTLDPlusOne L h of None \<Rightarrow> h | Some r \<Rightarrow> ''.'' @ r)
                 = (case EffectiveTLDPlusOne L h of None \<Rightarrow> h | Some r \<Rightarrow> ''.'' @ r)"
    if nip: "\<not> ParseIP L h"
      and nsp: "\<And>hst p. SplitHostPort L h = Some (hst, p) \<Longrightarrow> \<not> ParseIP L hst"
  proof (cases "EffectiveTLDPlusOne L h")
    case None
    with nip nsp show ?thesis
      by (auto simp: host2domain_def split: option.splits)
  next
    case (Some r')
    from assms[OF Some] have st: "separator_stable L r'" .
    then show ?thesis
      using Some by (auto simp: host2domain_def separator_stable_def split: option.splits)
  qed
  show "host2domain L (host2domain L h) = host2domain L h"
  proof (cases "ParseIP L h")
    case True
    then show ?thesis by (simp add: host2domain_def)
  next
    case nip: False
    show ?thesis
    proof (cases "SplitHostPort L h")
      case None
      with nip plus1 show ?thesis by (simp add: host2domain_def[of L h])
    next
      case (Some hp)
      then obtain hst p where sp: "SplitHostPort L h = Some (hst, p)" by (cases hp) auto
      show ?thesis
      proof (cases "ParseIP L hst")
        case True
        with nip sp have "host2domain L h = hst" by (simp add: host2domain_def)
        moreover from True have "host2domain L hst = hst" by (simp add: host2domain_def)
        ultimately show ?thesis by simp
      next
        case False
        with nip sp plus1 show ?thesis by (simp add: host2domain_def[of L h])
      qed
    qed
  qed
qed

lemma golib_www:
  "EffectiveTLDPlusOne golib ''www.example.co.uk'' = Some ''example.co.uk''"
  "separator_stable golib ''example.co.uk''"
  "\<not> ParseIP golib ''www.example.co.uk''"
  "SplitHostPort golib ''www.example.co.uk'' = None"
  by code_simp+

theorem host2domain_plus1_idempotent_witness:
  "host2domain golib ''www.example.co.uk'' = ''.example.co.uk'' \<and>
   host2domain golib (host2domain golib ''www.example.co.uk'') = host2domain golib ''www.example.co.uk''"
proof -
  have st: "\<And>r. EffectiveTLDPlusOne golib ''www.example.co.uk'' = Some r \<Longrightarrow> separator_stable golib r"
    by (simp add: golib_www)
  note T = host2domain_plus1_idempotent
         [where L = golib and h = "''www.example.co.uk''" and r = "''example.co.uk''", OF st]
  from T have a: "host2domain golib ''www.example.co.uk'' = ''.example.co.uk''"
    by (simp add: golib_www)
  from T have b: "host2domain golib (host2domain golib ''www.example.co.uk'')
                    = host2domain golib ''www.example.co.uk''"
    by blast
  from a b show ?thesis by blast
qed

section \<open>Log lines: properties\<close>


lemma find_line1:
  "FindStringSubmatch re_log ''1700000000.123    50 10.0.0.5 TCP_MISS/200 512 GET http://example.co.uk/a/b - HIER_DIRECT/1.2.3.4 text/html''
   = [''1700000000.123    50 10.0.0.5 TCP_MISS/200 512 GET http://example.co.uk/a/b - HIER_DIRECT/1.2.3.4 text/html'',
      ''1700000000.123'', ''10.0.0.5'', ''TCP_MISS/200'', ''GET'', ''http://example.co.uk/a/b'',
      ''text/html'']"
  by code_simp

lemma find_line2:
  "FindStringSubmatch re_log ''1700000000.000 10 10.0.0.5 TCP_TUNNEL/200 0 CONNECT 93.184.216.34:443 - HIER_DIRECT/93.184.216.34 -''
   = [''1700000000.000 10 10.0.0.5 TCP_TUNNEL/200 0 CONNECT 93.184.216.34:443 - HIER_DIRECT/93.184.216.34 -'',
      ''1700000000.000'', ''10.0.0.5'', ''TCP_TUNNEL/200'', ''CONNECT'', ''93.184.216.34:443'', ''-'']"
  by code_simp




text \<open>
  C9. With the answers of the library calls on the strings of the two examples (the
  URL splits into scheme \<open>http\<close>, host \<open>example.co.uk\<close> and path \<open>/a/b\<close>; that host is
  no IP literal, has no port, and is its own registrable domain; \<open>93.184.216.34:443\<close>
  splits into an IP literal and a port; both time stamps are numbers), the first line
  gives an entry with domain \<open>.example.co.uk\<close>, path \<open>/a/b\<close> and method \<open>GET\<close>, and the
  second an entry with host and domain \<open>93.184.216.34\<close> and the empty path.
\<close>

theorem parse_examples:
  assumes "url_Parse L ''http://example.co.uk/a/b'' =
             Some \<lparr>Scheme = ''http'', url_Host = ''example.co.uk'', url_Path = ''/a/b''\<rparr>"
    and "\<not> ParseIP L ''example.co.uk''"
    and "SplitHostPort L ''example.co.uk'' = None"
    and "EffectiveTLDPlusOne L ''example.co.uk'' = Some ''example.co.uk''"
    and "ParseFloat L ''1700000000.123'' = Some t1"
    and "SplitHostPort L ''93.184.216.34:443'' = Some (''93.184.216.34'', ''443'')"
    and "ParseIP L ''93.184.216.34''"
    and "ParseFloat L ''1700000000.000'' = Some t2"
  shows "parseLogEntry L ''1700000000.123    50 10.0.0.5 TCP_MISS/200 512 GET http://example.co.uk/a/b - HIER_DIRECT/1.2.3.4 text/html''
           = Inr \<lparr>Time = UnixFormat L t1, Client = ''10.0.0.5'', Method = ''GET'',
                  Domain = ''.example.co.uk'', Host = ''example.co.uk'', Path = ''/a/b'',
                  URL = ''http://example.co.uk/a/b''\<rparr>
       \<and> parseLogEntry L ''1700000000.000 10 10.0.0.5 TCP_TUNNEL/200 0 CONNECT 93.184.216.34:443 - HIER_DIRECT/93.184.216.34 -''
           = Inr \<lparr>Time = UnixFormat L t2, Client = ''10.0.0.5'', Method = ''CONNECT'',
                  Domain = ''93.184.216.34'', Host = ''93.184.216.34'', Path = '''',
                  URL = ''93.184.216.34:443''\<rparr>"
proof
  show "parseLogEntry L ''1700000000.123    50 10.0.0.5 TCP_MISS/200 512 GET http://example.co.uk/a/b - HIER_DIRECT/1.2.3.4 text/html''
           = Inr \<lparr>Time = UnixFormat L t1, Client = ''10.0.0.5'', Method = ''GET'',
                  Domain = ''.example.co.uk'', Host = ''example.co.uk'', Path = ''/a/b'',
                  URL = ''http://example.co.uk/a/b''\<rparr>"
    unfolding parseLogEntry_def find_line1 using assms(1-5)
    by (simp add: host2domain_def)
  show "parseLogEntry L ''1700000000.000 10 10.0.0.5 TCP_TUNNEL/200 0 CONNECT 93.184.216.34:443 - HIER_DIRECT/93.184.216.34 -''
           = Inr \<lparr>Time = UnixFormat L t2, Client = ''10.0.0.5'', Method = ''CONNECT'',
                  Domain = ''93.184.216.34'', Host = ''93.184.216.34'', Path = '''',
                  URL = ''93.184.216.34:443''\<rparr>"
    unfolding parseLogEntry_def find_line2 using assms(6-8)
    by (cases "url_Parse L ''93.184.216.34:443''") (simp_all add: host2domain_def)
qed

lemma golib_facts:
  "url_Parse golib ''http://example.co.uk/a/b'' =
             Some \<lparr>Scheme = ''http'', url_Host = ''example.co.uk'', url_Path = ''/a/b''\<rparr>"
  "\<not> ParseIP golib ''example.co.uk''"
  "SplitHostPort golib ''example.co.uk'' = None"
  "EffectiveTLDPlusOne golib ''example.co.uk'' = Some ''example.co.uk''"
  "ParseFloat golib ''1700000000.123'' = Some ''1700000000.123''"
  "SplitHostPort golib ''93.184.216.34:443'' = Some (''93.184.216.34'', ''443'')"
  "ParseIP golib ''93.184.216.34''"
  "ParseFloat golib ''1700000000.000'' = Some ''1700000000.000''"
  by code_simp+

theorem parse_examples_witness:
  "parseLogEntry golib ''1700000000.123    50 10.0.0.5 TCP_MISS/200 512 GET http://example.co.uk/a/b - HIER_DIRECT/1.2.3.4 text/html''
           = Inr \<lparr>Time = ''1700000000.123'', Client = ''10.0.0.5'', Method = ''GET'',
                  Domain = ''.example.co.uk'', Host = ''example.co.uk'', Path = ''/a/b'',
                  URL = ''http://example.co.uk/a/b''\<rparr>
       \<and> parseLogEntry golib ''1700000000.000 10 10.0.0.5 TCP_TUNNEL/200 0 CONNECT 93.184.216.34:443 - HIER_DIRECT/93.184.216.34 -''
           = Inr \<lparr>Time = ''1700000000.000'', Client = ''10.0.0.5'', Method = ''CONNECT'',
                  Domain = ''93.184.216.34'', Host = ''93.184.216.34'', Path = '''',
                  URL = ''93.184.216.34:443''\<rparr>"
  using parse_examples [OF golib_facts] by (simp add: golib_def)

section \<open>The tail of the log: properties\<close>

lemma reverse_loop_length:
  "length (reverse_loop i j s o') = length o'"
proof (induction i j s o' rule: reverse_loop.induct)
  case (1 i j s o')
  show ?case
  proof (cases "i < j")
    case True
    with 1 show ?thesis by (subst reverse_loop.simps) simp
  next
    case False
    then show ?thesis by (subst reverse_loop.simps) simp
  qed
qed

text \<open>The loop invariant: between \<open>i\<close> and \<open>j\<close> the output gets the mirrored input,
  except at the middle position of a slice of odd length, which the loop condition
  \<open>i < j\<close> never reaches.\<close>

lemma reverse_loop_nth:
  assumes "0 \<le> i" "i + j = int (length s) - 1" "length o' = length s" "k < length s"
  shows "reverse_loop i j s o' ! k =
           (if i \<le> int k \<and> int k \<le> j \<and> 2 * k + 1 \<noteq> length s then s ! (length s - 1 - k) else o' ! k)"
  using assms
proof (induction i j s o' rule: reverse_loop.induct)
  case (1 i j s o')
  show ?case
  proof (cases "i < j")
    case False
    have "reverse_loop i j s o' = o'" using False by (subst reverse_loop.simps) simp
    moreover have "\<not> (i \<le> int k \<and> int k \<le> j \<and> 2 * k + 1 \<noteq> length s)"
      using False "1.prems" by auto
    ultimately show ?thesis by auto
  next
    case True
    let ?o = "o'[nat i := s ! nat j, nat j := s ! nat i]"
    have step: "reverse_loop i j s o' = reverse_loop (i + 1) (j - 1) s ?o"
      using True by (subst reverse_loop.simps) simp
    have IH: "reverse_loop (i + 1) (j - 1) s ?o ! k =
           (if i + 1 \<le> int k \<and> int k \<le> j - 1 \<and> 2 * k + 1 \<noteq> length s then s ! (length s - 1 - k) else ?o ! k)"
      using "1.IH"[OF True] "1.prems" by simp
    have ni: "nat i < length s" "nat j < length s" "nat i \<noteq> nat j"
      using True "1.prems" by auto
    consider (a) "int k = i" | (b) "int k = j" | (c) "int k \<noteq> i" "int k \<noteq> j" by blast
    then show ?thesis
    proof cases
      case a
      then have k: "k = nat i" by simp
      have "length s - 1 - k = nat j" using a "1.prems" by auto
      moreover have "2 * k + 1 \<noteq> length s" using a True "1.prems" by auto
      ultimately show ?thesis using a True ni "1.prems" unfolding step IH
        by (simp add: k)
    next
      case b
      then have k: "k = nat j" by simp
      have "length s - 1 - k = nat i" using b "1.prems" by auto
      moreover have "2 * k + 1 \<noteq> length s" using b True "1.prems" by auto
      ultimately show ?thesis using b True ni "1.prems" unfolding step IH
        by (simp add: k)
    next
      case c
      then have "k \<noteq> nat i" "k \<noteq> nat j" using "1.prems" True by auto
      then have "?o ! k = o' ! k" by simp
      then show ?thesis using c unfolding step IH by auto
    qed
  qed
qed

text \<open>What \<^verbatim>\<open>reverse\<close> returns: the reversed slice when the length is even; when it
  is odd, the reversed slice with the empty string in place of the middle element.\<close>

lemma reverse_shape:
  "reverse s = (if odd (length s) then (rev s)[length s div 2 := ''''] else rev s)"
proof (rule nth_equalityI)
  show "length (reverse s) = length (if odd (length s) then (rev s)[length s div 2 := ''''] else rev s)"
    by (simp add: reverse_def Let_def reverse_loop_length)
next
  fix k assume "k < length (reverse s)"
  then have k: "k < length s" by (simp add: reverse_def Let_def reverse_loop_length)
  have "reverse s ! k = (if 2 * k + 1 \<noteq> length s then s ! (length s - 1 - k) else '''')"
    unfolding reverse_def Let_def
    using k by (subst reverse_loop_nth) auto
  moreover have "(if odd (length s) then (rev s)[length s div 2 := ''''] else rev s) ! k
      = (if 2 * k + 1 \<noteq> length s then s ! (length s - 1 - k) else '''')"
  proof (cases "2 * k + 1 = length s")
    case True
    then have "odd (length s)" "length s div 2 = k" by presburger+
    with k True show ?thesis by auto
  next
    case False
    then have "odd (length s) \<Longrightarrow> length s div 2 \<noteq> k" by presburger
    with k False show ?thesis by (auto simp: rev_nth)
  qed
  ultimately show "reverse s ! k = (if odd (length s) then (rev s)[length s div 2 := ''''] else rev s) ! k"
    by simp
qed

text \<open>The entries collected are the entries of the lines that parse, in order.\<close>

lemma collect_entries:
  "fst (collect L ls) = concat (map (\<lambda>l. case parseLogEntry L l of Inr e \<Rightarrow> [e] | Inl _ \<Rightarrow> []) ls)"
  by (induction ls) (auto split: prod.splits sum.splits parse_error.splits)

text \<open>
  C5. The claim asks for the exact reversal of the line list, for odd and even
  lengths. A log of two lines, each ended by a newline, splits into three pieces (the
  last one empty); \<^verbatim>\<open>reverse\<close> leaves the middle position of its output at the empty
  string, so the second, most recent, line is lost: the tail holds the entry of the
  first line only.
\<close>

theorem tailLog_middle_line_lost:
  "reverse [''a'', ''b'', ''c''] = [''c'', '''', ''a''] \<and>
   rev [''a'', ''b'', ''c''] = [''c'', ''b'', ''a''] \<and>
   Split CHR 0x0A (''1700000000.000 10 10.0.0.5 TCP_TUNNEL/200 0 CONNECT 93.184.216.34:443 - HIER_DIRECT/93.184.216.34 -'' @ [CHR 0x0A] @ ''1700000060.000 10 10.0.0.5 TCP_TUNNEL/200 0 CONNECT 198.51.100.7:443 - HIER_DIRECT/198.51.100.7 -'' @ [CHR 0x0A]) = [''1700000000.000 10 10.0.0.5 TCP_TUNNEL/200 0 CONNECT 93.184.216.34:443 - HIER_DIRECT/93.184.216.34 -'', ''1700000060.000 10 10.0.0.5 TCP_TUNNEL/200 0 CONNECT 198.51.100.7:443 - HIER_DIRECT/198.51.100.7 -'', ''''] \<and>
   fst (tailLog golib (''1700000000.000 10 10.0.0.5 TCP_TUNNEL/200 0 CONNECT 93.184.216.34:443 - HIER_DIRECT/93.184.216.34 -'' @ [CHR 0x0A] @ ''1700000060.000 10 10.0.0.5 TCP_TUNNEL/200 0 CONNECT 198.51.100.7:443 - HIER_DIRECT/198.51.100.7 -'' @ [CHR 0x0A]))
     = [\<lparr>Time = ''1700000000.000'', Client = ''10.0.0.5'', Method = ''CONNECT'',
         Domain = ''93.184.216.34'', Host = ''93.184.216.34'', Path = '''',
         URL = ''93.184.216.34:443''\<rparr>]"
  by code_simp

section \<open>The policy store: properties\<close>






lemma formUUIDs_bad:
  "u \<in> set vs \<Longrightarrow> \<not> reUUID_MatchString u \<Longrightarrow>
     \<exists>y \<in> set vs. \<not> reUUID_MatchString y \<and> formUUIDsStringSlice vs = Inl (NotValidUUID y)"
  by (induction vs) (auto split: sum.splits)

lemma check_rules_bad:
  "u \<in> set vs \<Longrightarrow> \<not> reUUID_MatchString u \<Longrightarrow>
     \<exists>y \<in> set vs. \<not> reUUID_MatchString y \<and> check_rules vs = Inl (NotValidRuleID y)"
  by (induction vs) (auto split: sum.splits)

lemma check_acls_bad:
  "u \<in> set vs \<Longrightarrow> \<not> reUUID_MatchString u \<Longrightarrow>
     \<exists>y \<in> set vs. \<not> reUUID_MatchString y \<and> check_acls vs = Inl (NotValidAclID y)"
  by (induction vs) (auto split: sum.splits)

lemma check_acls_Inr: "check_acls vs = Inr s \<Longrightarrow> s = vs"
  by (induction vs arbitrary: s) (auto split: if_splits sum.splits)






text \<open>\<open>dec\<close> writes a count in decimal: reading the digits back gives the count.\<close>

lemma digit_of_char: "k < 10 \<Longrightarrow> of_char (''0123456789'' ! k) = (48 + k :: nat)"
proof -
  assume "k < 10"
  then have "k \<in> {0,1,2,3,4,5,6,7,8,9}" by auto
  then show ?thesis by (elim insertE emptyE) simp_all
qed

lemma dtoi_snoc: "dtoi (xs @ [c]) = 10 * dtoi xs + (of_char c - 48)"
  by (simp add: dtoi_def)

lemma dtoi_dec: "dtoi (dec n) = n"
proof (induction n rule: dec.induct)
  case (1 n)
  show ?case
  proof (cases "n < 10")
    case True
    then show ?thesis by (subst dec.simps) (simp add: dtoi_def digit_of_char)
  next
    case False
    with 1 show ?thesis
      by (subst dec.simps) (simp add: dtoi_snoc digit_of_char)
  qed
qed

lemma filter_absent: "x \<notin> set (map fst xs) \<Longrightarrow> filter (\<lambda>r. fst r \<noteq> x) xs = xs"
  by (induction xs) auto

text \<open>
  C2. On a store that enforces the foreign keys, for a well-formed identifier \<open>x\<close>:
  deleting the ACL \<open>x\<close> when no rule is linked to it succeeds and removes its row;
  deleting an ACL \<open>x\<close> that exists and has a rule linked fails, leaves the tables as
  they are, and reports the status 400 with the message \<^verbatim>\<open>acl still has n rules\<close>,
  \<open>n\<close> being the number of rows of \<^verbatim>\<open>aclrules\<close> with that ACL at the time of the call.
  Deleting a source behaves the same way, with the number of rows of \<^verbatim>\<open>members\<close> that
  reference the source in \<^verbatim>\<open>source still used by n groups\<close>.
\<close>

theorem delete_blocked_count:
  assumes "reUUID_MatchString x"
  shows "(count_aclrules (store w) x = 0 \<longrightarrow>
            aclDeleteHandler fk_store x w =
              (None, w\<lparr>store := apply_stmt (DeleteAcl x) (store w),
                       issued := issued w @ [Begin, DeleteAcl x, Commit]\<rparr>))
       \<and> (x \<in> set (map fst (acls (store w))) \<and> 0 < count_aclrules (store w) x \<longrightarrow>
            aclDeleteHandler fk_store x w =
              (Some (errHTTP (''acl still has '' @ dec (count_aclrules (store w) x) @ '' rules'') 400),
               w\<lparr>issued := issued w @ [Begin, DeleteAcl x, CountAclrules x]\<rparr>))
       \<and> (count_members (store w) x = 0 \<longrightarrow>
            sourceDeleteHandler fk_store x w =
              (None, w\<lparr>store := apply_stmt (DeleteSource x) (store w),
                       issued := issued w @ [Begin, DeleteSource x, Commit]\<rparr>))
       \<and> (x \<in> set (map fst (sources (store w))) \<and> 0 < count_members (store w) x \<longrightarrow>
            sourceDeleteHandler fk_store x w =
              (Some (errHTTP (''source still used by '' @ dec (count_members (store w) x) @ '' groups'') 400),
               w\<lparr>issued := issued w @ [Begin, DeleteSource x, CountMembers x]\<rparr>))"
  using assms
  by (simp add: aclDeleteHandler_def sourceDeleteHandler_def assertUUID_def txWrap_def Exec_def
        fk_store_def Let_def)

lemma world0_facts:
  "reUUID_MatchString uuid_a" "reUUID_MatchString uuid_b" "reUUID_MatchString uuid_c"
  "reUUID_MatchString uuid_g"
  "0 < count_aclrules (store world0) uuid_a" "count_aclrules (store world0) uuid_b = 0"
  "0 < count_members (store world0) uuid_a" "count_members (store world0) uuid_b = 0"
  "uuid_a \<in> set (map fst (acls (store world0)))" "uuid_a \<in> set (map fst (sources (store world0)))"
  "uuid_c \<notin> set (map fst (acls (store world0)))" "uuid_c \<notin> set (map fst (sources (store world0)))"
  "''acl still has '' @ dec (count_aclrules (store world0) uuid_a) @ '' rules'' = ''acl still has 2 rules''"
  "''source still used by '' @ dec (count_members (store world0) uuid_a) @ '' groups''
     = ''source still used by 1 groups''"
  by code_simp+

theorem delete_blocked_count_witness:
  "reUUID_MatchString uuid_a \<and> reUUID_MatchString uuid_b \<and>
   uuid_a \<in> set (map fst (acls (store world0))) \<and> 0 < count_aclrules (store world0) uuid_a \<and>
   aclDeleteHandler fk_store uuid_a world0 =
     (Some (errHTTP (''acl still has '' @ dec (count_aclrules (store world0) uuid_a) @ '' rules'') 400),
      world0\<lparr>issued := issued world0 @ [Begin, DeleteAcl uuid_a, CountAclrules uuid_a]\<rparr>) \<and>
   ''acl still has '' @ dec (count_aclrules (store world0) uuid_a) @ '' rules'' = ''acl still has 2 rules'' \<and>
   count_aclrules (store world0) uuid_b = 0 \<and>
   fst (aclDeleteHandler fk_store uuid_b world0) = None \<and>
   uuid_a \<in> set (map fst (sources (store world0))) \<and> 0 < count_members (store world0) uuid_a \<and>
   sourceDeleteHandler fk_store uuid_a world0 =
     (Some (errHTTP (''source still used by '' @ dec (count_members (store world0) uuid_a) @ '' groups'') 400),
      world0\<lparr>issued := issued world0 @ [Begin, DeleteSource uuid_a, CountMembers uuid_a]\<rparr>) \<and>
   ''source still used by '' @ dec (count_members (store world0) uuid_a) @ '' groups''
     = ''source still used by 1 groups'' \<and>
   count_members (store world0) uuid_b = 0 \<and>
   fst (sourceDeleteHandler fk_store uuid_b world0) = None"
proof -
  note A = delete_blocked_count [OF world0_facts(1), of world0]
  note B = delete_blocked_count [OF world0_facts(2), of world0]
  from A world0_facts have a1: "aclDeleteHandler fk_store uuid_a world0 =
     (Some (errHTTP (''acl still has '' @ dec (count_aclrules (store world0) uuid_a) @ '' rules'') 400),
      world0\<lparr>issued := issued world0 @ [Begin, DeleteAcl uuid_a, CountAclrules uuid_a]\<rparr>)"
    by blast
  from A world0_facts have a2: "sourceDeleteHandler fk_store uuid_a world0 =
     (Some (errHTTP (''source still used by '' @ dec (count_members (store world0) uuid_a) @ '' groups'') 400),
      world0\<lparr>issued := issued world0 @ [Begin, DeleteSource uuid_a, CountMembers uuid_a]\<rparr>)"
    by blast
  from B world0_facts have b1: "aclDeleteHandler fk_store uuid_b world0 =
              (None, world0\<lparr>store := apply_stmt (DeleteAcl uuid_b) (store world0),
                       issued := issued world0 @ [Begin, DeleteAcl uuid_b, Commit]\<rparr>)"
    by blast
  from B world0_facts have b2: "sourceDeleteHandler fk_store uuid_b world0 =
              (None, world0\<lparr>store := apply_stmt (DeleteSource uuid_b) (store world0),
                       issued := issued world0 @ [Begin, DeleteSource uuid_b, Commit]\<rparr>)"
    by blast
  from b1 have b1': "fst (aclDeleteHandler fk_store uuid_b world0) = None" by simp
  from b2 have b2': "fst (sourceDeleteHandler fk_store uuid_b world0) = None" by simp
  from a1 a2 b1' b2' world0_facts show ?thesis by blast
qed

text \<open>
  C10. On a store that enforces the foreign keys, deleting a well-formed ACL or
  source identifier that is not in its table is a plain success: the transaction runs
  begin, the delete and commit, the delete finds no row, the handler returns no
  error, and the tables are as before.
\<close>

theorem delete_absent_ok:
  assumes "reUUID_MatchString x"
  shows "(x \<notin> set (map fst (acls (store w))) \<longrightarrow>
            aclDeleteHandler fk_store x w = (None, w\<lparr>issued := issued w @ [Begin, DeleteAcl x, Commit]\<rparr>))
       \<and> (x \<notin> set (map fst (sources (store w))) \<longrightarrow>
            sourceDeleteHandler fk_store x w = (None, w\<lparr>issued := issued w @ [Begin, DeleteSource x, Commit]\<rparr>))"
proof -
  have a: "x \<notin> set (map fst (acls (store w))) \<Longrightarrow> apply_stmt (DeleteAcl x) (store w) = store w"
    using filter_absent[of x "acls (store w)"] by (simp add: case_prod_unfold)
  have s: "x \<notin> set (map fst (sources (store w))) \<Longrightarrow> apply_stmt (DeleteSource x) (store w) = store w"
    using filter_absent[of x "sources (store w)"] by (simp add: case_prod_unfold)
  show ?thesis
    using assms a s
    by (simp add: aclDeleteHandler_def sourceDeleteHandler_def assertUUID_def txWrap_def Exec_def
        fk_store_def Let_def)
qed

theorem delete_absent_ok_witness:
  "reUUID_MatchString uuid_c \<and>
   uuid_c \<notin> set (map fst (acls (store world0))) \<and>
   uuid_c \<notin> set (map fst (sources (store world0))) \<and>
   aclDeleteHandler fk_store uuid_c world0
     = (None, world0\<lparr>issued := issued world0 @ [Begin, DeleteAcl uuid_c, Commit]\<rparr>) \<and>
   sourceDeleteHandler fk_store uuid_c world0
     = (None, world0\<lparr>issued := issued world0 @ [Begin, DeleteSource uuid_c, Commit]\<rparr>)"
  using delete_absent_ok [OF world0_facts(3), of world0] world0_facts
  by blast

text \<open>
  C3, as the program has it. An identifier in a submitted list that does not match
  the UUID pattern (the rules of a move or of a delete, the sources of a member
  replacement, the ACLs of a grant replacement) makes the operation return the
  validation error of the first such identifier, with no statement sent to the
  database and the state untouched. A malformed source or ACL identifier of a delete,
  and a malformed group identifier of a member replacement or of a new member, make
  the handler panic in \<^verbatim>\<open>assertUUID\<close>, again before any statement is sent.
\<close>

theorem malformed_identifier_rejected:
  assumes "\<not> reUUID_MatchString x"
  shows "(x \<in> set ids \<longrightarrow>
            (\<exists>y \<in> set ids. \<not> reUUID_MatchString y \<and>
               aclMoveHandler acc dst ids w = (Some (NotValidRuleID y), w)) \<and>
            (\<exists>y \<in> set ids. \<not> reUUID_MatchString y \<and>
               ruleDeleteHandler acc ids w = (Some (NotValidUUID y), w)) \<and>
            (\<exists>y \<in> set ids. \<not> reUUID_MatchString y \<and>
               accessUpdateHandler acc gid ids cs w = (Some (NotValidAclID y), w)) \<and>
            (reUUID_MatchString gid \<longrightarrow>
               (\<exists>y \<in> set ids. \<not> reUUID_MatchString y \<and>
                  membersmembersHandler acc gid ids cs w = (Some (NotValidUUID y), w))))
       \<and> sourceDeleteHandler acc x w = (Some (Panic (NotUuid x)), w)
       \<and> aclDeleteHandler acc x w = (Some (Panic (NotUuid x)), w)
       \<and> membersmembersHandler acc x ids cs w = (Some (Panic (NotUuid x)), w)
       \<and> membersNewHandler acc x src sc c u w = (Some (Panic (NotUuid x)), w)"
proof -
  have lists: "(\<exists>y \<in> set ids. \<not> reUUID_MatchString y \<and>
               aclMoveHandler acc dst ids w = (Some (NotValidRuleID y), w)) \<and>
            (\<exists>y \<in> set ids. \<not> reUUID_MatchString y \<and>
               ruleDeleteHandler acc ids w = (Some (NotValidUUID y), w)) \<and>
            (\<exists>y \<in> set ids. \<not> reUUID_MatchString y \<and>
               accessUpdateHandler acc gid ids cs w = (Some (NotValidAclID y), w)) \<and>
            (reUUID_MatchString gid \<longrightarrow>
               (\<exists>y \<in> set ids. \<not> reUUID_MatchString y \<and>
                  membersmembersHandler acc gid ids cs w = (Some (NotValidUUID y), w)))"
    if mem: "x \<in> set ids"
  proof -
    from check_rules_bad[OF mem assms] obtain y1 where
      y1: "y1 \<in> set ids" "\<not> reUUID_MatchString y1" "check_rules ids = Inl (NotValidRuleID y1)"
      by blast
    from formUUIDs_bad[OF mem assms] obtain y2 where
      y2: "y2 \<in> set ids" "\<not> reUUID_MatchString y2" "formUUIDsStringSlice ids = Inl (NotValidUUID y2)"
      by blast
    from check_acls_bad[OF mem assms] obtain y3 where
      y3: "y3 \<in> set ids" "\<not> reUUID_MatchString y3" "check_acls ids = Inl (NotValidAclID y3)"
      by blast
    from y1 have m: "\<exists>y \<in> set ids. \<not> reUUID_MatchString y \<and>
               aclMoveHandler acc dst ids w = (Some (NotValidRuleID y), w)"
      by (auto simp: aclMoveHandler_def)
    from y2 have d: "\<exists>y \<in> set ids. \<not> reUUID_MatchString y \<and>
               ruleDeleteHandler acc ids w = (Some (NotValidUUID y), w)"
      by (auto simp: ruleDeleteHandler_def)
    from y3 have a: "\<exists>y \<in> set ids. \<not> reUUID_MatchString y \<and>
               accessUpdateHandler acc gid ids cs w = (Some (NotValidAclID y), w)"
      by (auto simp: accessUpdateHandler_def)
    from y2 have r: "reUUID_MatchString gid \<Longrightarrow>
               (\<exists>y \<in> set ids. \<not> reUUID_MatchString y \<and>
                  membersmembersHandler acc gid ids cs w = (Some (NotValidUUID y), w))"
      by (auto simp: membersmembersHandler_def assertUUID_def)
    from m d a r show ?thesis by blast
  qed
  have panics: "sourceDeleteHandler acc x w = (Some (Panic (NotUuid x)), w)"
    "aclDeleteHandler acc x w = (Some (Panic (NotUuid x)), w)"
    "membersmembersHandler acc x ids cs w = (Some (Panic (NotUuid x)), w)"
    "membersNewHandler acc x src sc c u w = (Some (Panic (NotUuid x)), w)"
    using assms
    by (simp_all add: sourceDeleteHandler_def aclDeleteHandler_def membersmembersHandler_def
          membersNewHandler_def assertUUID_def)
  from lists panics show ?thesis by blast
qed

theorem malformed_identifier_rejected_witness:
  "\<not> reUUID_MatchString ''x'' \<and>
   aclMoveHandler fk_store uuid_b [uuid_a, ''x''] world0 = (Some (NotValidRuleID ''x''), world0) \<and>
   sourceDeleteHandler fk_store ''x'' world0 = (Some (Panic (NotUuid ''x'')), world0)"
proof -
  have n: "\<not> reUUID_MatchString ''x''" by code_simp
  have m: "aclMoveHandler fk_store uuid_b [uuid_a, ''x''] world0 = (Some (NotValidRuleID ''x''), world0)"
    by code_simp
  from malformed_identifier_rejected [OF n, of "[]" fk_store "[]" world0]
  have "sourceDeleteHandler fk_store ''x'' world0 = (Some (Panic (NotUuid ''x'')), world0)"
    by blast
  with n m show ?thesis by blast
qed

text \<open>
  The claim C3 as it is written asks every operation to reject a malformed
  identifier with a validation failure, before any query and without a crash. The
  rule identifier of \<^verbatim>\<open>ruleEditHandler\<close> and the destination of \<^verbatim>\<open>aclMoveHandler\<close>
  are not checked: the update runs with the malformed string. The delete of a source
  with a malformed identifier is a panic, not a validation failure.
\<close>

theorem malformed_identifier_counterexample:
  "\<not> reUUID_MatchString ''x'' \<and>
   ruleEditHandler fk_store ''x'' ''allow'' ''domain'' ''.example.org'' ''c'' world0 =
     (None, world0\<lparr>issued := [Begin, UpdateRule ''domain'' ''.example.org'' ''allow'' ''c'' ''x'', Commit]\<rparr>) \<and>
   fst (aclMoveHandler fk_store ''x'' [uuid_a] world0) = None \<and>
   issued (snd (aclMoveHandler fk_store ''x'' [uuid_a] world0)) = [Begin, UpdateAclrules ''x'' [uuid_a], Commit] \<and>
   aclrules (store (snd (aclMoveHandler fk_store ''x'' [uuid_a] world0))) = [(''x'', uuid_a), (uuid_a, uuid_b)] \<and>
   sourceDeleteHandler fk_store ''x'' world0 = (Some (Panic (NotUuid ''x'')), world0)"
  by code_simp

text \<open>\<^verbatim>\<open>accessUpdateHandler\<close> compares the two lengths before it opens the transaction.\<close>

lemma accessUpdate_length_check:
  assumes "list_all reUUID_MatchString as" "length cs \<noteq> length as"
  shows "accessUpdateHandler acc gid as cs w = (Some (LengthUnequal (length as) (length cs)), w)"
proof -
  from assms(1) have "check_acls as = Inr as"
    by (induction as) auto
  with assms(2) show ?thesis by (simp add: accessUpdateHandler_def)
qed

text \<open>
  C4. The claim asks both replace-all operations to reject lists of different
  lengths before any transaction begins. \<^verbatim>\<open>accessUpdateHandler\<close> does.
  \<^verbatim>\<open>membersmembersHandler\<close> has no such check: with one source and no comment it
  begins the transaction, sends the delete of the old member rows, and then panics on
  \<^verbatim>\<open>comments[0]\<close> (the deferred rollback restores the rows); with one source and two
  comments it succeeds and drops the second comment.
\<close>

theorem replace_members_length_unchecked:
  "membersmembersHandler fk_store uuid_g [uuid_b] [] world0 =
     (Some (Panic (IndexOutOfRange 0 0)), world0\<lparr>issued := [Begin, DeleteMembers uuid_g]\<rparr>) \<and>
   fst (membersmembersHandler fk_store uuid_g [uuid_b] [''x'', ''y''] world0) = None \<and>
   member_rows (store (snd (membersmembersHandler fk_store uuid_g [uuid_b] [''x'', ''y''] world0))) uuid_g
     = [(uuid_b, Some ''x'')] \<and>
   accessUpdateHandler fk_store uuid_g [uuid_b] [] world0 = (Some (LengthUnequal 1 0), world0)"
  by code_simp

end
